theory Spec2Isabelle
  imports Main
begin

section \<open>Exceptions, external calls and traces\<close>

text \<open>
  The three clients (\<^verbatim>\<open>agno_client.py\<close>, \<^verbatim>\<open>agno_gradio_client.py\<close>,
  \<^verbatim>\<open>google_adk_client.py\<close>) are glue code around libraries: the SSE transport and the
  protocol session of \<^verbatim>\<open>mcp\<close>, the agent runtimes, the console.  What the libraries do is
  not part of the repository, so every call into a library is an \<^emph>\<open>external call\<close>: it is
  written to a trace together with its outcome, and its outcome (return or raise) is
  chosen by a behaviour function that sees the trace so far.  The code of the repository is the
  control flow around these calls, and that is what the definitions below follow line
  by line.

  A Python exception is its class and its message (\<^verbatim>\<open>str(e)\<close>).  Only the distinction
  the source itself makes is kept: \<^verbatim>\<open>except Exception\<close> catches every class but the ones
  that derive from \<^verbatim>\<open>BaseException\<close> alone (\<^verbatim>\<open>KeyboardInterrupt\<close>,
  \<^verbatim>\<open>asyncio.CancelledError\<close>, \<^verbatim>\<open>SystemExit\<close>), here \<open>Interrupt\<close>.
\<close>

datatype exn_class = EOFError | ValueError | AttributeError | RuntimeError | Interrupt

datatype exn = Exn exn_class string

fun exn_class_of :: "exn \<Rightarrow> exn_class" where
  "exn_class_of (Exn k m) = k"

fun py_str_exn :: "exn \<Rightarrow> string" where
  "py_str_exn (Exn k m) = m"

fun is_Exception :: "exn \<Rightarrow> bool" where
  "is_Exception (Exn k m) = (k \<noteq> Interrupt)"

type_synonym handle = nat

text \<open>
  The calls into libraries.  An object a library creates (a context manager, a session, a
  toolset, an agent) is named by a handle: the position in the trace of the call that
  created it, so two objects never share a handle.
\<close>

datatype call =
    SseClient string
  | StreamsEnter handle
  | NewClientSession handle
  | SessionEnter handle
  | Initialize handle
  | ListTools handle
  | SessionExit handle
  | StreamsExit handle
  | NewMCPTools "handle option"
  | MCPToolsInitialize handle
  | NewOpenAIChat string
  | NewAgent handle handle
  | AgentArun string
  | AgentStreamNext
  | PromptAsk
  | ConsolePrint string
  | LoggerError string
  | RunnerRunAsync string
  | RunnerNextEvent
  | ExitStackAclose

type_synonym event = "call \<times> exn option"

type_synonym trace = "event list"

type_synonym behaviour = "trace \<Rightarrow> call \<Rightarrow> exn option"

text \<open>
  \<open>ext\<close> performs one external call: the behaviour function decides whether it raises; the call and
  its outcome are appended to the trace; a call that returns, returns the handle of the
  object it may have created.
\<close>

definition ext :: "behaviour \<Rightarrow> call \<Rightarrow> trace \<Rightarrow> (exn + handle) \<times> trace" where
  "ext lib c tr =
     (case lib tr c of
        None \<Rightarrow> (Inr (length tr), tr @ [(c, None)])
      | Some e \<Rightarrow> (Inl e, tr @ [(c, Some e)]))"

section \<open>MCPClient\<close>

text \<open>
  The fields of \<^verbatim>\<open>MCPClient\<close>.  In \<^verbatim>\<open>agno_gradio_client.py\<close> the constructor sets all
  three to \<^verbatim>\<open>None\<close>.  In \<^verbatim>\<open>agno_client.py\<close> the constructor sets \<^verbatim>\<open>session\<close> only, and
  the two context attributes do not exist until \<^verbatim>\<open>connect_to_sse_server\<close> assigns them; there
  \<open>None\<close> stands for a missing attribute, whose read raises \<^verbatim>\<open>AttributeError\<close>.
  A context manager or session object is truthy, so \<^verbatim>\<open>if self._session_context:\<close> is the
  test for \<open>Some\<close>.
\<close>

record MCPClient =
  session :: "handle option"
  streams_context :: "handle option"
  session_context :: "handle option"

definition MCPClient_init :: MCPClient where
  "MCPClient_init = \<lparr>session = None, streams_context = None, session_context = None\<rparr>"

text \<open>
  The statements of \<^verbatim>\<open>connect_to_sse_server\<close>, the same six in both files
  (\<^verbatim>\<open>agno_client.py\<close> lines 71 to 81, \<^verbatim>\<open>agno_gradio_client.py\<close> lines 43 to 51).
  An assignment whose right side raises does not happen.  The session is constructed
  over the streams that entering the streams context returned, and entering the session
  context returns the session object itself, which becomes \<^verbatim>\<open>self.session\<close>.
\<close>

definition connect_steps ::
  "behaviour \<Rightarrow> string \<Rightarrow> MCPClient \<Rightarrow> trace \<Rightarrow> (exn + bool) \<times> MCPClient \<times> trace" where
  "connect_steps lib server_url c tr =
     (case ext lib (SseClient server_url) tr of
        (Inl e, tr1) \<Rightarrow> (Inl e, c, tr1)
      | (Inr h, tr1) \<Rightarrow>
          (let c1 = c\<lparr>streams_context := Some h\<rparr> in
           case ext lib (StreamsEnter h) tr1 of
             (Inl e, tr2) \<Rightarrow> (Inl e, c1, tr2)
           | (Inr _, tr2) \<Rightarrow>
               (case ext lib (NewClientSession h) tr2 of
                  (Inl e, tr3) \<Rightarrow> (Inl e, c1, tr3)
                | (Inr s, tr3) \<Rightarrow>
                    (let c2 = c1\<lparr>session_context := Some s\<rparr> in
                     case ext lib (SessionEnter s) tr3 of
                       (Inl e, tr4) \<Rightarrow> (Inl e, c2, tr4)
                     | (Inr _, tr4) \<Rightarrow>
                         (let c3 = c2\<lparr>session := Some s\<rparr> in
                          case ext lib (Initialize s) tr4 of
                            (Inl e, tr5) \<Rightarrow> (Inl e, c3, tr5)
                          | (Inr _, tr5) \<Rightarrow>
                              (case ext lib (ListTools s) tr5 of
                                 (Inl e, tr6) \<Rightarrow> (Inl e, c3, tr6)
                               | (Inr _, tr6) \<Rightarrow> (Inr True, c3, tr6)))))))"

text \<open>
  \<^verbatim>\<open>cleanup\<close> of \<^verbatim>\<open>agno_gradio_client.py\<close> (lines 56 to 61): the session context is
  left first, then the streams context, then \<^verbatim>\<open>self.session = None\<close>.  Neither context
  field is reset.  An \<^verbatim>\<open>__aexit__\<close> that raises ends the method there.
\<close>

definition cleanup_gradio ::
  "behaviour \<Rightarrow> MCPClient \<Rightarrow> trace \<Rightarrow> (exn + unit) \<times> MCPClient \<times> trace" where
  "cleanup_gradio lib c tr =
     (case (case session_context c of
              None \<Rightarrow> (Inr 0, tr)
            | Some s \<Rightarrow> ext lib (SessionExit s) tr) of
        (Inl e, tr1) \<Rightarrow> (Inl e, c, tr1)
      | (Inr _, tr1) \<Rightarrow>
          (case (case streams_context c of
                   None \<Rightarrow> (Inr 0, tr1)
                 | Some h \<Rightarrow> ext lib (StreamsExit h) tr1) of
             (Inl e, tr2) \<Rightarrow> (Inl e, c, tr2)
           | (Inr _, tr2) \<Rightarrow> (Inr (), c\<lparr>session := None\<rparr>, tr2)))"

text \<open>
  \<^verbatim>\<open>cleanup\<close> of \<^verbatim>\<open>agno_client.py\<close> (lines 83 to 88).  The attributes are read
  without having been set by the constructor, so a read before the assignment in
  \<^verbatim>\<open>connect_to_sse_server\<close> raises \<^verbatim>\<open>AttributeError\<close>; \<^verbatim>\<open>session\<close> is not reset.
\<close>

definition cleanup_agno ::
  "behaviour \<Rightarrow> MCPClient \<Rightarrow> trace \<Rightarrow> (exn + unit) \<times> MCPClient \<times> trace" where
  "cleanup_agno lib c tr =
     (case (case session_context c of
              None \<Rightarrow> (Inl (Exn AttributeError ''_session_context''), tr)
            | Some s \<Rightarrow> ext lib (SessionExit s) tr) of
        (Inl e, tr1) \<Rightarrow> (Inl e, c, tr1)
      | (Inr _, tr1) \<Rightarrow>
          (case (case streams_context c of
                   None \<Rightarrow> (Inl (Exn AttributeError ''_streams_context''), tr1)
                 | Some h \<Rightarrow> ext lib (StreamsExit h) tr1) of
             (Inl e, tr2) \<Rightarrow> (Inl e, c, tr2)
           | (Inr _, tr2) \<Rightarrow> (Inr (), c, tr2)))"

text \<open>
  \<^verbatim>\<open>connect_to_sse_server\<close> of \<^verbatim>\<open>agno_gradio_client.py\<close> (lines 40 to 54): the six
  statements inside \<^verbatim>\<open>try\<close>, and \<^verbatim>\<open>except Exception as e: await self.cleanup(); raise e\<close>.
  An exception raised by \<^verbatim>\<open>cleanup\<close> inside the handler replaces \<open>e\<close>.
\<close>

definition connect_to_sse_server_gradio ::
  "behaviour \<Rightarrow> string \<Rightarrow> MCPClient \<Rightarrow> trace \<Rightarrow> (exn + bool) \<times> MCPClient \<times> trace" where
  "connect_to_sse_server_gradio lib server_url c tr =
     (case connect_steps lib server_url c tr of
        (Inr b, c1, tr1) \<Rightarrow> (Inr b, c1, tr1)
      | (Inl e, c1, tr1) \<Rightarrow>
          (if is_Exception e then
             (case cleanup_gradio lib c1 tr1 of
                (Inl e2, c2, tr2) \<Rightarrow> (Inl e2, c2, tr2)
              | (Inr _, c2, tr2) \<Rightarrow> (Inl e, c2, tr2))
           else (Inl e, c1, tr1)))"

text \<open>
  \<^verbatim>\<open>connect_to_sse_server\<close> of \<^verbatim>\<open>agno_client.py\<close> (lines 68 to 81): the six statements
  with no handler around them.
\<close>

definition connect_to_sse_server_agno ::
  "behaviour \<Rightarrow> string \<Rightarrow> MCPClient \<Rightarrow> trace \<Rightarrow> (exn + bool) \<times> MCPClient \<times> trace" where
  "connect_to_sse_server_agno lib server_url c tr = connect_steps lib server_url c tr"

text \<open>\<^verbatim>\<open>disconnect\<close> is \<^verbatim>\<open>await self.cleanup()\<close> in both files.\<close>

definition disconnect_gradio ::
  "behaviour \<Rightarrow> MCPClient \<Rightarrow> trace \<Rightarrow> (exn + unit) \<times> MCPClient \<times> trace" where
  "disconnect_gradio lib c tr = cleanup_gradio lib c tr"

definition disconnect_agno ::
  "behaviour \<Rightarrow> MCPClient \<Rightarrow> trace \<Rightarrow> (exn + unit) \<times> MCPClient \<times> trace" where
  "disconnect_agno lib c tr = cleanup_agno lib c tr"

text \<open>The behaviour of a run in which no library call raises.\<close>

definition all_succeed :: behaviour where
  "all_succeed tr c = None"

section \<open>ZerodhaAssistant (agno_gradio_client.py)\<close>

text \<open>
  The agent object: its handle, the toolset it was given, and the constructor arguments
  that bound a conversation (\<^verbatim>\<open>tool_call_limit=10\<close>, \<^verbatim>\<open>num_history_responses=10\<close>).
  What the agent runtime does with them is the library's business.
\<close>

record Agent =
  agent_handle :: handle
  agent_tools :: handle
  tool_call_limit :: nat
  num_history_responses :: nat

definition mk_agent :: "handle \<Rightarrow> handle \<Rightarrow> Agent" where
  "mk_agent g m = \<lparr>agent_handle = g, agent_tools = m, tool_call_limit = 10,
                    num_history_responses = 10\<rparr>"

record ZerodhaAssistant =
  client :: "MCPClient option"
  agent :: "Agent option"
  connected :: bool

definition ZerodhaAssistant_init :: ZerodhaAssistant where
  "ZerodhaAssistant_init = \<lparr>client = None, agent = None, connected = False\<rparr>"

text \<open>Python's \<^verbatim>\<open>str\<close> of an integer, as the f-string of the URL formats the port.\<close>

definition digit_char :: "nat \<Rightarrow> char" where
  "digit_char d = char_of (48 + d)"

fun str_nat :: "nat \<Rightarrow> string" where
  "str_nat n = (if n < 10 then [digit_char n] else str_nat (n div 10) @ [digit_char (n mod 10)])"

definition py_str_int :: "int \<Rightarrow> string" where
  "py_str_int i = (if i < 0 then CHR ''-'' # str_nat (nat (- i)) else str_nat (nat i))"

text \<open>\<^verbatim>\<open>f"http://{host}:{port}/sse"\<close>, the same expression in all three files.\<close>

definition mcp_url :: "string \<Rightarrow> int \<Rightarrow> string" where
  "mcp_url h p = ''http://'' @ h @ '':'' @ py_str_int p @ ''/sse''"

text \<open>
  The body of the \<^verbatim>\<open>try\<close> of \<^verbatim>\<open>ZerodhaAssistant.connect\<close> (lines 78 to 123).  The client
  object is created and stored before the connection is attempted, and it is the object
  \<^verbatim>\<open>connect_to_sse_server\<close> mutates, so \<^verbatim>\<open>self.client\<close> holds the mutated client also when
  the call raises.
\<close>

definition zerodha_connect_try ::
  "behaviour \<Rightarrow> string \<Rightarrow> int \<Rightarrow> ZerodhaAssistant \<Rightarrow> trace
     \<Rightarrow> (exn + string) \<times> ZerodhaAssistant \<times> trace" where
  "zerodha_connect_try lib h p a tr =
     (case connect_to_sse_server_gradio lib (mcp_url h p) MCPClient_init tr of
        (Inl e, c1, tr1) \<Rightarrow> (Inl e, a\<lparr>client := Some c1\<rparr>, tr1)
      | (Inr _, c1, tr1) \<Rightarrow>
          (let a1 = a\<lparr>client := Some c1\<rparr> in
           case ext lib (NewMCPTools (session c1)) tr1 of
             (Inl e, tr2) \<Rightarrow> (Inl e, a1, tr2)
           | (Inr m, tr2) \<Rightarrow>
               (case ext lib (MCPToolsInitialize m) tr2 of
                  (Inl e, tr3) \<Rightarrow> (Inl e, a1, tr3)
                | (Inr _, tr3) \<Rightarrow>
                    (case ext lib (NewOpenAIChat ''gpt-4o'') tr3 of
                       (Inl e, tr4) \<Rightarrow> (Inl e, a1, tr4)
                     | (Inr md, tr4) \<Rightarrow>
                         (case ext lib (NewAgent m md) tr4 of
                            (Inl e, tr5) \<Rightarrow> (Inl e, a1, tr5)
                          | (Inr g, tr5) \<Rightarrow>
                              (Inr ''Connected successfully! Ready to assist you.'',
                               a1\<lparr>agent := Some (mk_agent g m), connected := True\<rparr>,
                               tr5))))))"


text \<open>\<^verbatim>\<open>ZerodhaAssistant.disconnect\<close> (lines 132 to 145).\<close>

definition zerodha_disconnect ::
  "behaviour \<Rightarrow> ZerodhaAssistant \<Rightarrow> trace \<Rightarrow> (exn + string) \<times> ZerodhaAssistant \<times> trace" where
  "zerodha_disconnect lib a tr =
     (if \<not> connected a then (Inr ''Not connected!'', a, tr)
      else
        (case (case client a of
                 None \<Rightarrow> (Inr (), a, tr)
               | Some c \<Rightarrow>
                   (case disconnect_gradio lib c tr of
                      (r, c2, tr2) \<Rightarrow> (r, a\<lparr>client := Some c2\<rparr>, tr2))) of
           (Inl e, a2, tr2) \<Rightarrow>
             (if is_Exception e then (Inr (''Error during disconnect: '' @ py_str_exn e), a2, tr2)
              else (Inl e, a2, tr2))
         | (Inr _, a2, tr2) \<Rightarrow>
             (Inr ''Disconnected successfully!'',
              a2\<lparr>client := None, agent := None, connected := False\<rparr>, tr2)))"

text \<open>
  What \<^verbatim>\<open>await assistant.agent.arun(message, stream=False)\<close> delivers: a response with its
  content, or an exception.
\<close>

datatype run_result = Response string | RunRaises exn

text \<open>
  \<^verbatim>\<open>chat_handler\<close> (lines 175 to 184).  The history is a list of two-element lists;
  \<^verbatim>\<open>history + [[message, r]]\<close> builds a new list.  The handler reads the assistant and
  does not change it.
\<close>

definition chat_handler ::
  "ZerodhaAssistant \<Rightarrow> run_result \<Rightarrow> string \<Rightarrow> string list list \<Rightarrow> exn + string list list" where
  "chat_handler a run message history =
     (if \<not> connected a \<or> agent a = None then
        Inr (history @ [[message, ''Not connected to MCP server! Please connect first.'']])
      else
        (case run of
           Response content \<Rightarrow> Inr (history @ [[message, content]])
         | RunRaises e \<Rightarrow>
             (if is_Exception e then Inr (history @ [[message, ''Error: '' @ py_str_exn e]])
              else Inl e)))"

section \<open>Host, port and URL of the command-line clients\<close>

text \<open>
  The namespace \<^verbatim>\<open>argparse\<close> returns: \<^verbatim>\<open>args.host\<close> and \<^verbatim>\<open>args.port\<close> are \<^verbatim>\<open>None\<close> when
  the flag is absent (\<^verbatim>\<open>--port\<close> has \<^verbatim>\<open>type=int\<close>).  \<^verbatim>\<open>os.environ\<close> is a map from names
  to strings.
\<close>

record Namespace =
  args_host :: "string option"
  args_port :: "int option"

type_synonym environ = "string \<Rightarrow> string option"

text \<open>
  Python's \<^verbatim>\<open>int(s)\<close> on ASCII text: surrounding white space is dropped, a sign may come
  first, then decimal digits, which single underscores may separate.  Anything else raises
  \<^verbatim>\<open>ValueError\<close> (the message is kept short: \<^verbatim>\<open>repr\<close> is not modelled).
\<close>

definition is_space :: "char \<Rightarrow> bool" where
  "is_space c = ((of_char c :: nat) \<in> {9, 10, 11, 12, 13, 28, 29, 30, 31, 32})"

definition is_digit :: "char \<Rightarrow> bool" where
  "is_digit c = (48 \<le> (of_char c :: nat) \<and> (of_char c :: nat) \<le> 57)"

definition digit_val :: "char \<Rightarrow> nat" where
  "digit_val c = of_char c - 48"

fun parse_digits :: "nat \<Rightarrow> string \<Rightarrow> nat option" where
  "parse_digits acc [] = None"
| "parse_digits acc [c] = (if is_digit c then Some (acc * 10 + digit_val c) else None)"
| "parse_digits acc (c # d # rest) =
     (if is_digit c then
        (if d = CHR ''_'' then parse_digits (acc * 10 + digit_val c) rest
         else parse_digits (acc * 10 + digit_val c) (d # rest))
      else None)"

definition py_strip :: "string \<Rightarrow> string" where
  "py_strip s = rev (dropWhile is_space (rev (dropWhile is_space s)))"

definition py_int :: "string \<Rightarrow> exn + int" where
  "py_int s =
     (let t = py_strip s;
          r = (case t of
                 [] \<Rightarrow> None
               | c # rest \<Rightarrow>
                   (if c = CHR ''-'' then map_option (\<lambda>n. - int n) (parse_digits 0 rest)
                    else if c = CHR ''+'' then map_option int (parse_digits 0 rest)
                    else map_option int (parse_digits 0 t)))
      in case r of
           None \<Rightarrow> Inl (Exn ValueError (''invalid literal for int() with base 10: '' @ s))
         | Some i \<Rightarrow> Inr i)"

definition environ_get :: "environ \<Rightarrow> string \<Rightarrow> string \<Rightarrow> string" where
  "environ_get env k d = (case env k of None \<Rightarrow> d | Some v \<Rightarrow> v)"

text \<open>
  \<^verbatim>\<open>mcp_host = args.host or os.environ.get("MCP_HOST", "localhost")\<close> and
  \<^verbatim>\<open>mcp_port = args.port or int(os.environ.get("MCP_PORT", "8001"))\<close>
  (\<^verbatim>\<open>agno_client.py\<close> lines 102 and 103, \<^verbatim>\<open>google_adk_client.py\<close> lines 77 and 78).
  Python's \<^verbatim>\<open>a or b\<close> is \<open>a\<close> when \<open>a\<close> is truthy and \<open>b\<close> otherwise, and \<open>b\<close> is evaluated
  only then; \<^verbatim>\<open>None\<close>, the empty string and \<open>0\<close> are falsy.
\<close>

definition mcp_host :: "Namespace \<Rightarrow> environ \<Rightarrow> string" where
  "mcp_host args env =
     (case args_host args of
        None \<Rightarrow> environ_get env ''MCP_HOST'' ''localhost''
      | Some h \<Rightarrow> (if h \<noteq> [] then h else environ_get env ''MCP_HOST'' ''localhost''))"

definition mcp_port :: "Namespace \<Rightarrow> environ \<Rightarrow> exn + int" where
  "mcp_port args env =
     (case args_port args of
        None \<Rightarrow> py_int (environ_get env ''MCP_PORT'' ''8001'')
      | Some p \<Rightarrow> (if p \<noteq> 0 then Inr p else py_int (environ_get env ''MCP_PORT'' ''8001'')))"

text \<open>The URL \<^verbatim>\<open>main\<close> connects to, or the \<^verbatim>\<open>ValueError\<close> of the port.\<close>

definition main_url :: "Namespace \<Rightarrow> environ \<Rightarrow> exn + string" where
  "main_url args env =
     (case mcp_port args env of
        Inl e \<Rightarrow> Inl e
      | Inr p \<Rightarrow> Inr (mcp_url (mcp_host args env) p))"

section \<open>The interactive loops\<close>

text \<open>\<^verbatim>\<open>str.lower\<close> on ASCII text.\<close>

definition lower_char :: "char \<Rightarrow> char" where
  "lower_char c =
     (if 65 \<le> (of_char c :: nat) \<and> (of_char c :: nat) \<le> 90 then char_of ((of_char c :: nat) + 32)
      else c)"

definition py_lower :: "string \<Rightarrow> string" where
  "py_lower s = map lower_char s"

text \<open>
  A run of a loop is driven by a script: for each turn, what \<^verbatim>\<open>Prompt.ask\<close> delivers
  (a line, or an exception such as \<^verbatim>\<open>KeyboardInterrupt\<close>) and what the agent runtime
  delivers if it is asked.  When the script is used up the terminal is at end of file and
  \<^verbatim>\<open>Prompt.ask\<close> raises \<^verbatim>\<open>EOFError\<close>.  The calls to \<^verbatim>\<open>console.print\<close> are recorded with
  their text (style and line end are not); printing and logging are taken not to raise.
\<close>

datatype prompt_result = Line string | PromptRaises exn

datatype loop_exit = Break | Raised exn

text \<open>
  \<^verbatim>\<open>await agent.arun(user_query, stream=True)\<close> raises, or returns a stream that yields
  chunks and may raise after them.
\<close>

datatype agent_stream = ArunRaises exn | Stream "string list" "exn option"

type_synonym agno_turn = "prompt_result \<times> agent_stream"

text \<open>
  \<^verbatim>\<open>async for response in result: if response.content: console.print(response.content, ...)\<close>
\<close>

fun print_chunks :: "string list \<Rightarrow> trace \<Rightarrow> trace" where
  "print_chunks [] tr = tr"
| "print_chunks (ch # chs) tr =
     print_chunks chs
       (if ch \<noteq> [] then tr @ [(AgentStreamNext, None), (ConsolePrint ch, None)]
        else tr @ [(AgentStreamNext, None)])"

definition eof :: exn where
  "eof = Exn EOFError []"

text \<open>The \<^verbatim>\<open>while True\<close> of \<^verbatim>\<open>agno_client.py\<close> (lines 158 to 183).\<close>

fun agno_loop :: "agno_turn list \<Rightarrow> trace \<Rightarrow> loop_exit \<times> trace" where
  "agno_loop [] tr = (Raised eof, tr @ [(ConsolePrint [], None), (PromptAsk, Some eof)])"
| "agno_loop ((p, r) # rest) tr =
     (case p of
        PromptRaises e \<Rightarrow> (Raised e, tr @ [(ConsolePrint [], None), (PromptAsk, Some e)])
      | Line user_query \<Rightarrow>
          (let tr1 = tr @ [(ConsolePrint [], None), (PromptAsk, None)] in
           if py_lower user_query = ''quit'' then (Break, tr1)
           else
             (let tr2 = tr1 @ [(ConsolePrint [], None),
                               (ConsolePrint (''[user]You:[/user] '' @ user_query), None),
                               (ConsolePrint [], None),
                               (ConsolePrint ''[assistant]Assistant:[/assistant] '', None)] in
              case r of
                ArunRaises e \<Rightarrow> (Raised e, tr2 @ [(AgentArun user_query, Some e)])
              | Stream chunks ex \<Rightarrow>
                  (let tr3 = print_chunks chunks (tr2 @ [(AgentArun user_query, None)]) in
                   case ex of
                     Some e \<Rightarrow> (Raised e, tr3 @ [(AgentStreamNext, Some e)])
                   | None \<Rightarrow>
                       agno_loop rest (tr3 @ [(ConsolePrint [], None), (ConsolePrint [], None)])))))"

text \<open>
  The \<^verbatim>\<open>try\<close> / \<^verbatim>\<open>except Exception\<close> / \<^verbatim>\<open>finally\<close> around the loop
  (\<^verbatim>\<open>agno_client.py\<close> lines 157 to 189).  The result is the exception that leaves
  \<^verbatim>\<open>main\<close>, if any: one that \<^verbatim>\<open>except Exception\<close> does not catch, unless
  \<^verbatim>\<open>disconnect\<close> raises in the \<^verbatim>\<open>finally\<close> block and replaces it.
\<close>

definition agno_session ::
  "behaviour \<Rightarrow> MCPClient \<Rightarrow> agno_turn list \<Rightarrow> trace \<Rightarrow> exn option \<times> MCPClient \<times> trace" where
  "agno_session lib c turns tr =
     (case agno_loop turns tr of
        (ex, tr1) \<Rightarrow>
          (case (case ex of
                   Break \<Rightarrow> (None, tr1)
                 | Raised e \<Rightarrow>
                     (if is_Exception e then
                        (None, tr1 @ [(ConsolePrint (''[danger]An error occurred: '' @ py_str_exn e
                                                      @ ''[/danger]''), None)])
                      else (Some e, tr1))) of
             (pending, tr2) \<Rightarrow>
               (case disconnect_agno lib c tr2 of
                  (Inl e2, c2, tr3) \<Rightarrow> (Some e2, c2, tr3)
                | (Inr _, c2, tr3) \<Rightarrow> (pending, c2, tr3))))"

definition welcome_agno :: string where
  "welcome_agno = ''[info]Welcome to Zerodha! I'' @ [CHR 0x27] @ ''m here to assist you with managing your trading account, orders, portfolio, and positions. How can I help you today?[/info]''"

text \<open>
  \<^verbatim>\<open>main\<close> of \<^verbatim>\<open>agno_client.py\<close> (lines 94 to 189).  Everything up to the welcome message
  is outside the \<^verbatim>\<open>try\<close>: an exception there leaves \<^verbatim>\<open>main\<close> at once.
\<close>

definition agno_main ::
  "behaviour \<Rightarrow> Namespace \<Rightarrow> environ \<Rightarrow> agno_turn list \<Rightarrow> exn option \<times> trace" where
  "agno_main lib args env turns =
     (case main_url args env of
        Inl e \<Rightarrow> (Some e, [])
      | Inr url \<Rightarrow>
          (case connect_to_sse_server_agno lib url MCPClient_init [] of
             (Inl e, c, tr1) \<Rightarrow> (Some e, tr1)
           | (Inr _, c, tr1) \<Rightarrow>
               (case (case session c of
                        None \<Rightarrow> (Inl (Exn AttributeError ''list_tools''), tr1)
                      | Some s \<Rightarrow> ext lib (ListTools s) tr1) of
                  (Inl e, tr2) \<Rightarrow> (Some e, tr2)
                | (Inr _, tr2) \<Rightarrow>
                    (case ext lib (NewMCPTools (session c)) tr2 of
                       (Inl e, tr3) \<Rightarrow> (Some e, tr3)
                     | (Inr m, tr3) \<Rightarrow>
                         (case ext lib (MCPToolsInitialize m) tr3 of
                            (Inl e, tr4) \<Rightarrow> (Some e, tr4)
                          | (Inr _, tr4) \<Rightarrow>
                              (case ext lib (NewOpenAIChat ''gpt-4o'') tr4 of
                                 (Inl e, tr5) \<Rightarrow> (Some e, tr5)
                               | (Inr md, tr5) \<Rightarrow>
                                   (case ext lib (NewAgent m md) tr5 of
                                      (Inl e, tr6) \<Rightarrow> (Some e, tr6)
                                    | (Inr g, tr6) \<Rightarrow>
                                        (case agno_session lib c turns
                                                (tr6 @ [(ConsolePrint [], None),
                                                        (ConsolePrint welcome_agno, None)]) of
                                           (r, c2, tr7) \<Rightarrow> (r, tr7)))))))))"

text \<open>
  An event of the ADK runner: whether it is a final response, and the texts of the parts
  of its content (\<open>None\<close> when it has no content; a part without text is the empty string).
\<close>

record adk_event =
  is_final_response :: bool
  content_parts :: "string list option"

type_synonym google_turn = "prompt_result \<times> adk_event list \<times> exn option"

text \<open>
  \<^verbatim>\<open>if event.is_final_response() and event.content: for part in event.content.parts:
  if part.text: final_response_text += part.text\<close>
\<close>

fun add_parts :: "string list \<Rightarrow> string \<Rightarrow> string" where
  "add_parts [] final_response_text = final_response_text"
| "add_parts (t # ts) final_response_text =
     add_parts ts (if t \<noteq> [] then final_response_text @ t else final_response_text)"

fun add_events :: "adk_event list \<Rightarrow> string \<Rightarrow> string" where
  "add_events [] final_response_text = final_response_text"
| "add_events (ev # evs) final_response_text =
     add_events evs
       (if is_final_response ev then
          (case content_parts ev of
             None \<Rightarrow> final_response_text
           | Some parts \<Rightarrow> add_parts parts final_response_text)
        else final_response_text)"

text \<open>
  The \<^verbatim>\<open>while True\<close> of \<^verbatim>\<open>google_adk_client.py\<close> (lines 144 to 179): \<^verbatim>\<open>EOFError\<close> at the
  prompt is taken as the input \<^verbatim>\<open>quit\<close>, and the run of the agent has a handler of its
  own, after which the loop goes on.  The statements before the loop (lines 84 to 141:
  the toolset, the agent, the runner and its session) are not part of the definition.
\<close>

fun google_loop :: "google_turn list \<Rightarrow> trace \<Rightarrow> loop_exit \<times> trace" where
  "google_loop [] tr = (Break, tr @ [(ConsolePrint [], None), (PromptAsk, Some eof)])"
| "google_loop ((p, evs, ex) # rest) tr =
     (case (case p of
              Line q \<Rightarrow> (Inr q, tr @ [(ConsolePrint [], None), (PromptAsk, None)])
            | PromptRaises e \<Rightarrow>
                (if exn_class_of e = EOFError then
                   (Inr ''quit'', tr @ [(ConsolePrint [], None), (PromptAsk, Some e)])
                 else (Inl e, tr @ [(ConsolePrint [], None), (PromptAsk, Some e)]))) of
        (Inl e, tr1) \<Rightarrow> (Raised e, tr1)
      | (Inr user_query, tr1) \<Rightarrow>
          (if py_lower user_query = ''quit'' then (Break, tr1)
           else
             (let tr2 = tr1 @ [(ConsolePrint (''[user]You:[/user] '' @ user_query), None),
                               (ConsolePrint [], None),
                               (RunnerRunAsync user_query, None)]
                        @ replicate (length evs) (RunnerNextEvent, None) in
              case ex of
                None \<Rightarrow>
                  google_loop rest
                    (tr2 @ [(ConsolePrint (''[assistant]Assistant:[/assistant] ''
                                            @ add_events evs []), None),
                            (ConsolePrint [], None)])
              | Some e \<Rightarrow>
                  (if is_Exception e then
                     google_loop rest
                       (tr2 @ [(RunnerNextEvent, Some e),
                               (LoggerError (''[danger]Error during runner execution: ''
                                             @ py_str_exn e @ ''[/danger]''), None),
                               (ConsolePrint (''[assistant]Assistant:[/assistant] ''
                                              @ ''[bold red]Error: '' @ py_str_exn e
                                              @ ''[/bold red]''), None),
                               (ConsolePrint [], None)])
                   else (Raised e, tr2 @ [(RunnerNextEvent, Some e)])))))"


text \<open>Which events are close calls.\<close>

fun is_close :: "event \<Rightarrow> bool" where
  "is_close (SessionExit s, r) = True"
| "is_close (StreamsExit h, r) = True"
| "is_close (c, r) = False"



text \<open>Library behaviours and a client state used as concrete inputs.\<close>

fun initialize_fails :: behaviour where
  "initialize_fails tr (Initialize s) = Some (Exn RuntimeError ''handshake failed'')"
| "initialize_fails tr c = None"


definition connected_client :: MCPClient where
  "connected_client = \<lparr>session = Some 2, streams_context = Some 0, session_context = Some 2\<rparr>"

section \<open>Evaluation of the string functions\<close>

lemma py_int_8001: "py_int ''8001'' = Inr 8001"
  by (simp add: py_int_def py_strip_def is_space_def is_digit_def digit_val_def)

lemma py_str_int_8001: "py_str_int 8001 = ''8001''"
  by (simp add: py_str_int_def digit_char_def char_of_def bit_Suc_0_iff)

lemma main_url_default:
  "main_url \<lparr>args_host = None, args_port = None\<rparr> Map.empty = Inr ''http://localhost:8001/sse''"
  by (simp add: main_url_def mcp_port_def mcp_host_def environ_get_def py_int_8001 mcp_url_def
                py_str_int_8001)

section \<open>The connect sequence\<close>

lemma connect_steps_ok:
  assumes "connect_steps lib url c tr = (Inr b, c', tr')"
  shows "tr' = tr @ [(SseClient url, None), (StreamsEnter (length tr), None),
                     (NewClientSession (length tr), None),
                     (SessionEnter (length tr + 2), None),
                     (Initialize (length tr + 2), None),
                     (ListTools (length tr + 2), None)]
         \<and> c' = \<lparr>session = Some (length tr + 2), streams_context = Some (length tr),
                 session_context = Some (length tr + 2)\<rparr>
         \<and> b"
  using assms
  by (auto simp: connect_steps_def ext_def Let_def split: option.splits)

text \<open>
  What the six statements leave in the trace, whatever their outcome: no close call; a
  streams context that was entered is the one created by this attempt and is the one the
  client holds; and a failure is the outcome of one of the calls.
\<close>

lemma connect_steps_events:
  assumes "connect_steps lib url c tr = (r, c', tr')"
  shows "\<exists>evs. tr' = tr @ evs \<and> (\<forall>ev \<in> set evs. \<not> is_close ev)
           \<and> (\<forall>h. (StreamsEnter h, None) \<in> set evs \<longrightarrow>
                  h = length tr \<and> streams_context c' = Some h)
           \<and> (\<forall>e. r = Inl e \<longrightarrow> (\<exists>cl. (cl, Some e) \<in> set evs))"
  using assms
  by (auto simp: connect_steps_def ext_def Let_def split: option.splits)

text \<open>
  Claim C5.  A connect that succeeds, in either client, has made exactly six library
  calls, in this order and each returning: create the SSE context, enter it (the
  transport stream is open), construct the session over it, enter the session,
  \<^verbatim>\<open>initialize\<close>, and \<^verbatim>\<open>list_tools\<close> once.  The only call on the session before
  \<^verbatim>\<open>initialize\<close> has returned is entering it.
\<close>

theorem connect_performs_handshake_in_order:
  assumes "connect_to_sse_server_gradio lib url c tr = (Inr b, c', tr')
           \<or> connect_to_sse_server_agno lib url c tr = (Inr b, c', tr')"
  shows "tr' = tr @ [(SseClient url, None), (StreamsEnter (length tr), None),
                     (NewClientSession (length tr), None),
                     (SessionEnter (length tr + 2), None),
                     (Initialize (length tr + 2), None),
                     (ListTools (length tr + 2), None)]"
proof -
  from assms have "connect_steps lib url c tr = (Inr b, c', tr')"
    by (auto simp: connect_to_sse_server_gradio_def connect_to_sse_server_agno_def
             split: prod.splits sum.splits if_splits)
  from connect_steps_ok [OF this] show ?thesis by simp
qed

theorem connect_performs_handshake_in_order_witness:
  "connect_to_sse_server_gradio all_succeed ''http://localhost:8001/sse'' MCPClient_init []
     = (Inr True, connected_client,
        [(SseClient ''http://localhost:8001/sse'', None), (StreamsEnter 0, None),
         (NewClientSession 0, None), (SessionEnter 2, None), (Initialize 2, None),
         (ListTools 2, None)])"
proof -
  have h: "connect_to_sse_server_gradio all_succeed ''http://localhost:8001/sse'' MCPClient_init []
     = (Inr True, connected_client,
        snd (snd (connect_to_sse_server_gradio all_succeed ''http://localhost:8001/sse''
                    MCPClient_init [])))"
    by (simp add: connect_to_sse_server_gradio_def connect_steps_def ext_def all_succeed_def
                  MCPClient_init_def connected_client_def)
  from connect_performs_handshake_in_order [OF disjI1 [OF h]] h show ?thesis by simp
qed

text \<open>A connect on a fresh client when no library call raises.\<close>

lemma connect_agno_all_succeed:
  "connect_to_sse_server_agno all_succeed url MCPClient_init []
     = (Inr True, connected_client,
        [(SseClient url, None), (StreamsEnter 0, None), (NewClientSession 0, None),
         (SessionEnter 2, None), (Initialize 2, None), (ListTools 2, None)])"
  by (simp add: connect_to_sse_server_agno_def connect_steps_def ext_def all_succeed_def
                MCPClient_init_def connected_client_def)

lemma connect_gradio_all_succeed:
  "connect_to_sse_server_gradio all_succeed url MCPClient_init []
     = (Inr True, connected_client,
        [(SseClient url, None), (StreamsEnter 0, None), (NewClientSession 0, None),
         (SessionEnter 2, None), (Initialize 2, None), (ListTools 2, None)])"
  by (simp add: connect_to_sse_server_gradio_def connect_steps_def ext_def all_succeed_def
                MCPClient_init_def connected_client_def)

section \<open>Failure of a connect attempt\<close>

lemma connect_steps_initialize_fails:
  "connect_steps initialize_fails url MCPClient_init []
     = (Inl (Exn RuntimeError ''handshake failed''), connected_client,
        [(SseClient url, None), (StreamsEnter 0, None),
         (NewClientSession 0, None), (SessionEnter 2, None),
         (Initialize 2, Some (Exn RuntimeError ''handshake failed''))])"
  by (simp add: connect_steps_def ext_def MCPClient_init_def connected_client_def)

text \<open>
  Claim C1, on \<^verbatim>\<open>agno_client.py\<close>.  The handshake fails after the stream and the session
  were entered.  \<^verbatim>\<open>connect_to_sse_server\<close> raises with neither \<^verbatim>\<open>__aexit__\<close> called, and
  so does \<^verbatim>\<open>main\<close>, which calls it outside its \<^verbatim>\<open>try\<close>: the whole run of the program
  ends with the stream still open.
\<close>

theorem agno_connect_leaves_stream_open:
  "connect_to_sse_server_agno initialize_fails ''http://localhost:8001/sse'' MCPClient_init []
     = (Inl (Exn RuntimeError ''handshake failed''), connected_client,
        [(SseClient ''http://localhost:8001/sse'', None), (StreamsEnter 0, None),
         (NewClientSession 0, None), (SessionEnter 2, None),
         (Initialize 2, Some (Exn RuntimeError ''handshake failed''))])
   \<and> agno_main initialize_fails \<lparr>args_host = None, args_port = None\<rparr> Map.empty turns
     = (Some (Exn RuntimeError ''handshake failed''),
        [(SseClient ''http://localhost:8001/sse'', None), (StreamsEnter 0, None),
         (NewClientSession 0, None), (SessionEnter 2, None),
         (Initialize 2, Some (Exn RuntimeError ''handshake failed''))])"
  by (simp add: agno_main_def main_url_default connect_to_sse_server_agno_def
                connect_steps_initialize_fails)


lemma cleanup_gradio_events:
  assumes "cleanup_gradio lib c tr = (r, c', tr')"
  shows "\<exists>evs. tr' = tr @ evs \<and> (\<forall>ev \<in> set evs. is_close ev)
           \<and> (\<forall>h. streams_context c = Some h \<and> (\<forall>s x. (SessionExit s, Some x) \<notin> set evs)
                  \<longrightarrow> length (filter (\<lambda>ev. fst ev = StreamsExit h) evs) = 1)"
  using assms
  by (auto simp: cleanup_gradio_def ext_def split: option.splits)

text \<open>
  In general, for \<^verbatim>\<open>agno_gradio_client.py\<close>: when the attempt fails with the stream
  entered, no call raised an exception outside \<^verbatim>\<open>Exception\<close> and leaving the session did
  not raise, the stream opened by this attempt is left exactly once before
  \<^verbatim>\<open>connect_to_sse_server\<close> raises.
\<close>

lemma gradio_connect_failure_closes_stream_once:
  assumes run: "connect_to_sse_server_gradio lib url c tr = (Inl e, c', tr')"
      and opened: "(StreamsEnter h, None) \<in> set (drop (length tr) tr')"
      and closes_ok: "\<forall>s x. (SessionExit s, Some x) \<notin> set (drop (length tr) tr')"
      and exc: "\<forall>cl x. (cl, Some x) \<in> set (drop (length tr) tr') \<longrightarrow> is_Exception x"
  shows "length (filter (\<lambda>ev. fst ev = StreamsExit h) (drop (length tr) tr')) = 1"
proof -
  obtain r1 c1 tr1 where steps: "connect_steps lib url c tr = (r1, c1, tr1)"
    by (metis prod_cases3)
  from connect_steps_events [OF steps] obtain evs where
    evs: "tr1 = tr @ evs" "\<forall>ev \<in> set evs. \<not> is_close ev"
         "\<forall>h. (StreamsEnter h, None) \<in> set evs \<longrightarrow> h = length tr \<and> streams_context c1 = Some h"
         "\<forall>e. r1 = Inl e \<longrightarrow> (\<exists>cl. (cl, Some e) \<in> set evs)"
    by blast
  from run steps obtain e0 where e0: "r1 = Inl e0"
    by (cases r1) (auto simp: connect_to_sse_server_gradio_def)
  with evs(4) obtain cl where cl: "(cl, Some e0) \<in> set evs" by blast
  obtain r2 c2 tr2 where cleanup: "cleanup_gradio lib c1 tr1 = (r2, c2, tr2)"
    by (metis prod_cases3)
  from cleanup_gradio_events [OF cleanup] obtain closes where
    closes: "tr2 = tr1 @ closes" "\<forall>ev \<in> set closes. is_close ev"
            "\<forall>h. streams_context c1 = Some h \<and> (\<forall>s x. (SessionExit s, Some x) \<notin> set closes)
                  \<longrightarrow> length (filter (\<lambda>ev. fst ev = StreamsExit h) closes) = 1"
    by blast
  have exc0: "is_Exception e0"
  proof (rule ccontr)
    assume "\<not> is_Exception e0"
    with run steps e0 have "tr' = tr1"
      by (simp add: connect_to_sse_server_gradio_def)
    with evs(1) cl exc have "is_Exception e0" by auto
    with \<open>\<not> is_Exception e0\<close> show False by simp
  qed
  with run steps e0 cleanup have tr': "tr' = tr @ evs @ closes"
    by (auto simp: connect_to_sse_server_gradio_def evs(1) closes(1) split: sum.splits)
  from opened closes(2) have "(StreamsEnter h, None) \<in> set evs"
    by (auto simp: tr')
  with evs(3) have ctx: "streams_context c1 = Some h" by blast
  from closes_ok have "\<forall>s x. (SessionExit s, Some x) \<notin> set closes"
    by (auto simp: tr')
  with closes(3) ctx have one: "length (filter (\<lambda>ev. fst ev = StreamsExit h) closes) = 1"
    by blast
  from evs(2) have none: "filter (\<lambda>ev. fst ev = StreamsExit h) evs = []"
    by (auto simp: filter_empty_conv)
  from one none show ?thesis by (simp add: tr')
qed

section \<open>Disconnect\<close>



text \<open>
  Claim C3.  A fresh client connects and then disconnects twice, and no library call
  raises.  The second \<^verbatim>\<open>disconnect\<close> leaves the session context and the streams context
  again: \<^verbatim>\<open>cleanup\<close> never resets \<^verbatim>\<open>_session_context\<close> or \<^verbatim>\<open>_streams_context\<close>, so
  its two tests succeed as they did the first time.  In both clients.
\<close>

theorem second_disconnect_closes_again:
  "connect_to_sse_server_gradio all_succeed ''http://localhost:8001/sse'' MCPClient_init []
     = (Inr True, connected_client,
        [(SseClient ''http://localhost:8001/sse'', None), (StreamsEnter 0, None),
         (NewClientSession 0, None), (SessionEnter 2, None), (Initialize 2, None),
         (ListTools 2, None)])
   \<and> disconnect_gradio all_succeed connected_client
        [(SseClient ''http://localhost:8001/sse'', None), (StreamsEnter 0, None),
         (NewClientSession 0, None), (SessionEnter 2, None), (Initialize 2, None),
         (ListTools 2, None)]
     = (Inr (), connected_client\<lparr>session := None\<rparr>,
        [(SseClient ''http://localhost:8001/sse'', None), (StreamsEnter 0, None),
         (NewClientSession 0, None), (SessionEnter 2, None), (Initialize 2, None),
         (ListTools 2, None), (SessionExit 2, None), (StreamsExit 0, None)])
   \<and> disconnect_gradio all_succeed (connected_client\<lparr>session := None\<rparr>)
        [(SseClient ''http://localhost:8001/sse'', None), (StreamsEnter 0, None),
         (NewClientSession 0, None), (SessionEnter 2, None), (Initialize 2, None),
         (ListTools 2, None), (SessionExit 2, None), (StreamsExit 0, None)]
     = (Inr (), connected_client\<lparr>session := None\<rparr>,
        [(SseClient ''http://localhost:8001/sse'', None), (StreamsEnter 0, None),
         (NewClientSession 0, None), (SessionEnter 2, None), (Initialize 2, None),
         (ListTools 2, None), (SessionExit 2, None), (StreamsExit 0, None),
         (SessionExit 2, None), (StreamsExit 0, None)])
   \<and> connect_to_sse_server_agno all_succeed ''http://localhost:8001/sse'' MCPClient_init []
     = (Inr True, connected_client,
        [(SseClient ''http://localhost:8001/sse'', None), (StreamsEnter 0, None),
         (NewClientSession 0, None), (SessionEnter 2, None), (Initialize 2, None),
         (ListTools 2, None)])
   \<and> disconnect_agno all_succeed connected_client
        [(SseClient ''http://localhost:8001/sse'', None), (StreamsEnter 0, None),
         (NewClientSession 0, None), (SessionEnter 2, None), (Initialize 2, None),
         (ListTools 2, None)]
     = (Inr (), connected_client,
        [(SseClient ''http://localhost:8001/sse'', None), (StreamsEnter 0, None),
         (NewClientSession 0, None), (SessionEnter 2, None), (Initialize 2, None),
         (ListTools 2, None), (SessionExit 2, None), (StreamsExit 0, None)])
   \<and> disconnect_agno all_succeed connected_client
        [(SseClient ''http://localhost:8001/sse'', None), (StreamsEnter 0, None),
         (NewClientSession 0, None), (SessionEnter 2, None), (Initialize 2, None),
         (ListTools 2, None), (SessionExit 2, None), (StreamsExit 0, None)]
     = (Inr (), connected_client,
        [(SseClient ''http://localhost:8001/sse'', None), (StreamsEnter 0, None),
         (NewClientSession 0, None), (SessionEnter 2, None), (Initialize 2, None),
         (ListTools 2, None), (SessionExit 2, None), (StreamsExit 0, None),
         (SessionExit 2, None), (StreamsExit 0, None)])"
  by (simp add: connect_agno_all_succeed connect_gradio_all_succeed
                disconnect_gradio_def disconnect_agno_def cleanup_gradio_def cleanup_agno_def
                ext_def all_succeed_def connected_client_def)

text \<open>
  For every behaviour of the libraries: after a \<^verbatim>\<open>disconnect\<close> that returned, the next
  \<^verbatim>\<open>disconnect\<close> starts by leaving the same session context once more.
\<close>

lemma disconnect_again_gradio:
  assumes "session_context c = Some s" and "disconnect_gradio lib c tr = (Inr u, c1, tr1)"
  shows "\<exists>rest. snd (snd (disconnect_gradio lib c1 tr1))
           = tr1 @ (SessionExit s, lib tr1 (SessionExit s)) # rest"
  using assms
  by (auto simp: disconnect_gradio_def cleanup_gradio_def ext_def
           split: option.splits prod.splits sum.splits if_splits)

lemma disconnect_again_agno:
  assumes "session_context c = Some s" and "disconnect_agno lib c tr = (Inr u, c1, tr1)"
  shows "\<exists>rest. snd (snd (disconnect_agno lib c1 tr1))
           = tr1 @ (SessionExit s, lib tr1 (SessionExit s)) # rest"
  using assms
  by (auto simp: disconnect_agno_def cleanup_agno_def ext_def
           split: option.splits prod.splits sum.splits if_splits)

section \<open>ZerodhaAssistant.connect\<close>










text \<open>
  The agent of a connected assistant was constructed with \<^verbatim>\<open>tool_call_limit=10\<close>.  This
  argument is all the repository says about a bound on tool calls; the counting is the
  agent library's.
\<close>

lemma zerodha_connect_try_agent:
  assumes "zerodha_connect_try lib h p a tr = (Inr msg, a1, tr1)"
  shows "\<exists>g. agent a1 = Some g \<and> tool_call_limit g = 10"
  using assms
  by (auto simp: zerodha_connect_try_def ext_def Let_def mk_agent_def
           split: option.splits prod.splits sum.splits)





section \<open>chat_handler\<close>

text \<open>
  Claim C10.  The three ways \<^verbatim>\<open>chat_handler\<close> returns: the assistant is not connected,
  the agent responds, the agent raises an \<^verbatim>\<open>Exception\<close>.  Each returns the history with
  the pair of the message and a response appended; and whenever the handler returns, the
  result is one entry longer than the history, begins with the history unchanged, and
  ends with a pair whose first element is the message.
\<close>

theorem chat_handler_appends_one_pair:
  "(\<not> connected a \<or> agent a = None \<longrightarrow>
      chat_handler a run message history
        = Inr (history @ [[message, ''Not connected to MCP server! Please connect first.'']]))
   \<and> (connected a \<and> agent a \<noteq> None \<and> run = Response content \<longrightarrow>
        chat_handler a run message history = Inr (history @ [[message, content]]))
   \<and> (connected a \<and> agent a \<noteq> None \<and> run = RunRaises e \<and> is_Exception e \<longrightarrow>
        chat_handler a run message history
          = Inr (history @ [[message, ''Error: '' @ py_str_exn e]]))
   \<and> (\<forall>h'. chat_handler a run message history = Inr h' \<longrightarrow>
          length h' = Suc (length history) \<and> take (length history) h' = history
          \<and> (\<exists>response. last h' = [message, response]))"
  by (auto simp: chat_handler_def split: run_result.splits if_splits)

theorem chat_handler_appends_one_pair_witness:
  "chat_handler \<lparr>client = Some connected_client, agent = Some (mk_agent 9 6), connected = True\<rparr>
      (RunRaises (Exn RuntimeError ''boom'')) ''hi'' [[''a'', ''b'']]
     = Inr [[''a'', ''b''], [''hi'', ''Error: boom'']]
   \<and> chat_handler \<lparr>client = Some connected_client, agent = Some (mk_agent 9 6), connected = True\<rparr>
      (Response ''hello'') ''hi'' [[''a'', ''b'']]
     = Inr [[''a'', ''b''], [''hi'', ''hello'']]
   \<and> chat_handler ZerodhaAssistant_init (Response ''hello'') ''hi'' [[''a'', ''b'']]
     = Inr [[''a'', ''b''], [''hi'', ''Not connected to MCP server! Please connect first.'']]"
proof -
  let ?a = "\<lparr>client = Some connected_client, agent = Some (mk_agent 9 6), connected = True\<rparr>"
  have c: "connected ?a \<and> agent ?a \<noteq> None" by simp
  have nc: "\<not> connected ZerodhaAssistant_init \<or> agent ZerodhaAssistant_init = None"
    by (simp add: ZerodhaAssistant_init_def)
  have ex: "is_Exception (Exn RuntimeError ''boom'')" by simp
  note t = chat_handler_appends_one_pair
  from t [where a = ZerodhaAssistant_init and run = "Response ''hello''" and message = "''hi''"
             and history = "[[''a'', ''b'']]"] nc
  have 1: "chat_handler ZerodhaAssistant_init (Response ''hello'') ''hi'' [[''a'', ''b'']]
     = Inr [[''a'', ''b''], [''hi'', ''Not connected to MCP server! Please connect first.'']]"
    by simp
  from t [where a = ?a and run = "Response ''hello''" and content = "''hello''"
             and message = "''hi''" and history = "[[''a'', ''b'']]"] c
  have 2: "chat_handler ?a (Response ''hello'') ''hi'' [[''a'', ''b'']]
     = Inr [[''a'', ''b''], [''hi'', ''hello'']]"
    by simp
  from t [where a = ?a and run = "RunRaises (Exn RuntimeError ''boom'')"
             and e = "Exn RuntimeError ''boom''" and message = "''hi''"
             and history = "[[''a'', ''b'']]"] c ex
  have 3: "chat_handler ?a (RunRaises (Exn RuntimeError ''boom'')) ''hi'' [[''a'', ''b'']]
     = Inr [[''a'', ''b''], [''hi'', ''Error: boom'']]"
    by simp
  from 1 2 3 show ?thesis by simp
qed

section \<open>Traces of the interactive loops\<close>












lemma py_lower_hello: "py_lower ''hello'' \<noteq> ''quit''"
  by (simp add: py_lower_def lower_char_def)



section \<open>Leaving the loop\<close>



text \<open>The session of \<^verbatim>\<open>agno_client.py\<close> when the agent raises in the first of two turns.\<close>

lemma agno_session_agent_raises:
  "agno_session all_succeed connected_client
     [(Line ''hello'', ArunRaises (Exn RuntimeError ''boom'')),
      (Line ''next'', Stream [''ok''] None)] tr
   = (None, connected_client,
      tr @ [(ConsolePrint [], None), (PromptAsk, None), (ConsolePrint [], None),
       (ConsolePrint ''[user]You:[/user] hello'', None),
       (ConsolePrint [], None),
       (ConsolePrint ''[assistant]Assistant:[/assistant] '', None),
       (AgentArun ''hello'', Some (Exn RuntimeError ''boom'')),
       (ConsolePrint ''[danger]An error occurred: boom[/danger]'', None),
       (SessionExit 2, None), (StreamsExit 0, None)])"
  by (simp add: agno_session_def py_lower_hello disconnect_agno_def cleanup_agno_def ext_def
                all_succeed_def connected_client_def)

text \<open>
  Claim C2, on \<^verbatim>\<open>agno_client.py\<close>.  The whole program, with no flag and no variable set
  and no library call failing but the run of the agent in the first turn; a second input
  is waiting.  The exception is caught by the handler around the whole loop: the message
  is printed, the client disconnects and \<^verbatim>\<open>main\<close> returns.  The prompt is not shown
  again and the second input is never read.
\<close>

theorem agno_loop_ends_on_agent_exception:
  "agno_main all_succeed \<lparr>args_host = None, args_port = None\<rparr> Map.empty
     [(Line ''hello'', ArunRaises (Exn RuntimeError ''boom'')),
      (Line ''next'', Stream [''ok''] None)]
   = (None,
      [(SseClient ''http://localhost:8001/sse'', None), (StreamsEnter 0, None),
       (NewClientSession 0, None), (SessionEnter 2, None), (Initialize 2, None),
       (ListTools 2, None), (ListTools 2, None), (NewMCPTools (Some 2), None),
       (MCPToolsInitialize 7, None), (NewOpenAIChat ''gpt-4o'', None), (NewAgent 7 9, None),
       (ConsolePrint [], None), (ConsolePrint welcome_agno, None),
       (ConsolePrint [], None), (PromptAsk, None), (ConsolePrint [], None),
       (ConsolePrint ''[user]You:[/user] hello'', None),
       (ConsolePrint [], None),
       (ConsolePrint ''[assistant]Assistant:[/assistant] '', None),
       (AgentArun ''hello'', Some (Exn RuntimeError ''boom'')),
       (ConsolePrint ''[danger]An error occurred: boom[/danger]'', None),
       (SessionExit 2, None), (StreamsExit 0, None)])"
proof -
  have s: "session connected_client = Some 2" by (simp add: connected_client_def)
  have e: "\<And>c tr. ext all_succeed c tr = (Inr (length tr), tr @ [(c, None)])"
    by (simp add: ext_def all_succeed_def)
  show ?thesis
    by (simp add: agno_main_def main_url_default connect_agno_all_succeed s e
                  agno_session_agent_raises)
qed

text \<open>
  In general, a turn of \<^verbatim>\<open>agno_client.py\<close> in which the agent raises ends the loop,
  whatever inputs follow; the same turn in \<^verbatim>\<open>google_adk_client.py\<close>, whose handler is
  inside the loop, prints the error as the assistant's answer and goes on to the next
  input.
\<close>

lemma agno_loop_stops_at_failed_turn:
  assumes "py_lower q \<noteq> ''quit''"
  shows "agno_loop ((Line q, ArunRaises e) # rest) tr
           = (Raised e, tr @ [(ConsolePrint [], None), (PromptAsk, None), (ConsolePrint [], None),
                              (ConsolePrint (''[user]You:[/user] '' @ q), None),
                              (ConsolePrint [], None),
                              (ConsolePrint ''[assistant]Assistant:[/assistant] '', None),
                              (AgentArun q, Some e)])"
  using assms by simp

lemma google_loop_continues_after_failed_turn:
  assumes "py_lower q \<noteq> ''quit''" and "is_Exception e"
  shows "google_loop ((Line q, es, Some e) # rest) tr
           = google_loop rest
               (tr @ [(ConsolePrint [], None), (PromptAsk, None),
                      (ConsolePrint (''[user]You:[/user] '' @ q), None),
                      (ConsolePrint [], None), (RunnerRunAsync q, None)]
                   @ replicate (length es) (RunnerNextEvent, None)
                   @ [(RunnerNextEvent, Some e),
                      (LoggerError (''[danger]Error during runner execution: ''
                                    @ py_str_exn e @ ''[/danger]''), None),
                      (ConsolePrint (''[assistant]Assistant:[/assistant] ''
                                     @ ''[bold red]Error: '' @ py_str_exn e
                                     @ ''[/bold red]''), None),
                      (ConsolePrint [], None)])"
  using assms by simp

section \<open>Resolution of host, port and URL\<close>







end
